theory Spec2Isabelle
  imports Complex_Main "HOL-Library.Word"
begin

section \<open>Numbers of the script\<close>

text \<open>
  \<^verbatim>\<open>scalability_graphs.py\<close> is a straight-line script. Its numeric series are NumPy arrays
  built from lists of Python integers, so their dtype is NumPy's default integer type,
  \<^verbatim>\<open>int64\<close> (on every platform since NumPy 2.0, and on Linux and macOS before): arithmetic
  on them wraps around modulo \<open>2 ^ 64\<close> without any error. An \<^verbatim>\<open>int64\<close> is a 64-bit word
  read as a signed number by \<open>sint\<close>. The plain Python lists of Graphs 4 to 6 hold Python
  integers, which are unbounded: they are \<open>int\<close>.

  The two cost series are \<^verbatim>\<open>float64\<close> arrays. A finite \<^verbatim>\<open>float64\<close> is modelled by the real
  number it stands for, with exact arithmetic (rounding is not modelled); \<^verbatim>\<open>np.inf\<close> is a
  value of its own.
\<close>

type_synonym int64 = "64 word"

datatype float64 = Fin real | PInf

text \<open>The exceptions the script can end with: \<^verbatim>\<open>.max()\<close> of an empty array, and a figure
  that cannot be written to its path.\<close>

datatype error = ValueError | OSError

definition to_float :: "int64 \<Rightarrow> float64" where
  "to_float x = Fin (real_of_int (sint x))"

definition py_float :: "int \<Rightarrow> float64" where
  "py_float n = Fin (real_of_int n)"

text \<open>
  \<^verbatim>\<open>np.array\<close> on a list of Python integers builds an \<^verbatim>\<open>int64\<close> array exactly when every
  entry lies in the \<^verbatim>\<open>int64\<close> range. As soon as one entry is outside, the whole array gets
  another dtype (\<^verbatim>\<open>uint64\<close>, \<^verbatim>\<open>float64\<close> or \<^verbatim>\<open>object\<close>), which is not modelled: \<open>None\<close>.
  An empty list has no entries to tell the dtypes apart.
\<close>

definition int64_range :: "int \<Rightarrow> bool" where
  "int64_range k \<longleftrightarrow> - (2 ^ 63) \<le> k \<and> k < 2 ^ 63"

definition np_array :: "int list \<Rightarrow> int64 list option" where
  "np_array xs = (if list_all int64_range xs then Some (map of_int xs) else None)"

section \<open>The series of Graphs 1 to 3\<close>

definition users :: "int64 list" where
  "users = [0, 100, 200, 500, 800, 1000, 1500, 2000]"

text \<open>Line 10, \<^verbatim>\<open>800 + users * 50 + 200\<close>, as a function of the array \<^verbatim>\<open>users\<close>.\<close>

definition operations_single_bus_of :: "int64 list \<Rightarrow> int64 list" where
  "operations_single_bus_of us = map (\<lambda>u. 800 + u * 50 + 200) us"

definition operations_single_bus :: "int64 list" where
  "operations_single_bus = operations_single_bus_of users"

definition spark_limit :: int where
  "spark_limit = 50000"

definition buses :: "int64 list" where
  "buses = [1, 2, 3, 4, 5, 6, 7, 8]"

definition users_per_bus :: int where
  "users_per_bus = 500"

text \<open>Line 26: the factor \<^verbatim>\<open>800 + users_per_bus * 50 + 200\<close> is a Python integer, computed
  before NumPy multiplies the array by it.\<close>

definition operations_multi_bus_of :: "int64 list \<Rightarrow> int64 list" where
  "operations_multi_bus_of bs = map (\<lambda>b. b * of_int (800 + users_per_bus * 50 + 200)) bs"

definition operations_multi_bus :: "int64 list" where
  "operations_multi_bus = operations_multi_bus_of buses"

definition operations_range :: "int64 list" where
  "operations_range = [10000, 25000, 50000, 100000, 200000, 500000]"

text \<open>Line 40, \<^verbatim>\<open>np.where(operations_range <= 50000, 0, np.inf)\<close>: the comparison is the
  signed one.\<close>

definition spark_cost_of :: "int64 list \<Rightarrow> float64 list" where
  "spark_cost_of rng = map (\<lambda>x. if sint x \<le> 50000 then Fin 0 else PInf) rng"

definition spark_cost :: "float64 list" where
  "spark_cost = spark_cost_of operations_range"

text \<open>Line 41, \<^verbatim>\<open>np.maximum(0, (operations_range - 50000) * 0.06 / 100000)\<close>: the
  subtraction is done on \<^verbatim>\<open>int64\<close>, the product with \<^verbatim>\<open>0.06\<close> turns the array into
  \<^verbatim>\<open>float64\<close>. Every entry is finite.\<close>

definition blaze_cost_of :: "int64 list \<Rightarrow> real list" where
  "blaze_cost_of rng = map (\<lambda>x. max 0 (real_of_int (sint (x - 50000)) * 0.06 / 100000)) rng"

definition blaze_cost :: "real list" where
  "blaze_cost = blaze_cost_of operations_range"

text \<open>\<^verbatim>\<open>ndarray.max()\<close> on a one-dimensional \<^verbatim>\<open>int64\<close> array: it raises on an empty one.\<close>

fun amax :: "int64 list \<Rightarrow> error + int64" where
  "amax [] = Inl ValueError"
| "amax (x # xs) = Inr (foldl (\<lambda>m y. if sint m < sint y then y else m) x xs)"

section \<open>The constants of Graphs 4 to 6\<close>

definition load_scenarios :: "string list" where
  "load_scenarios = [''1B+100U'', ''1B+500U'', ''1B+1000U'', ''2B+500U'', ''3B+1000U'', ''5B+2000U'']"

definition operations :: "int list" where
  "operations = [6000, 26000, 51000, 27000, 53000, 105000]"

definition colors :: "string list" where
  "colors = [''green'', ''green'', ''orange'', ''green'', ''red'', ''red'']"

definition status :: "string list" where
  "status = [''Safe'', ''Safe'', ''Warning'', ''Safe'', ''Critical'', ''Critical'']"

definition operation_types :: "string list" where
  "operation_types = [''Bus Location\<newline>Updates'', ''Stop\<newline>Checks'', ''User App\<newline>Reads'',
     ''Admin\<newline>Reads'', ''Cache\<newline>Refresh'']"

definition operations_breakdown :: "int list" where
  "operations_breakdown = [800, 400, 50000, 200, 144]"

definition colors_breakdown :: "string list" where
  "colors_breakdown = [''#FF6B6B'', ''#4ECDC4'', ''#45B7D1'', ''#96CEB4'', ''#FFEAA7'']"

definition scenarios_opt :: "string list" where
  "scenarios_opt = [''No Optimization'', ''Current Optimization'', ''Full Optimization'']"

definition operations_before :: "int list" where
  "operations_before = [150000, 51544, 25000]"

definition colors_opt :: "string list" where
  "colors_opt = [''red'', ''orange'', ''green'']"

section \<open>What the script draws\<close>

text \<open>
  An axes object is the list of the method calls the script makes on it, in order, with the
  data and the texts they are given. Styling arguments (line width, line style, alpha, font
  settings, the percentage format and start angle of the pie) are left out. All plotted numbers
  are \<^verbatim>\<open>float64\<close> values, as the plotting library converts them.
\<close>

datatype call =
    Plot "float64 list" "float64 list" string string
  | Axhline float64 string string
  | Fill_between "float64 list" float64 float64 string string
  | Bar "string list" "float64 list" "string list"
  | Pie "float64 list" "string list" "string list"
  | Text real real string
  | Set_xlabel string
  | Set_ylabel string
  | Set_title string
  | Set_ylim float64 float64
  | Legend
  | Grid

record figure =
  suptitle :: string
  axes :: "call list list"

text \<open>The format \<^verbatim>\<open>f'{op:,}'\<close> of a Python integer: decimal digits in groups of three.\<close>

fun dec :: "nat \<Rightarrow> string" where
  "dec n = (if n < 10 then [''0123456789'' ! n]
            else dec (n div 10) @ [''0123456789'' ! (n mod 10)])"

fun group3 :: "string \<Rightarrow> string" where
  "group3 s = (if length s \<le> 3 then s
               else group3 (take (length s - 3) s) @ '','' @ drop (length s - 3) s)"

definition format_thousands :: "int \<Rightarrow> string" where
  "format_thousands n = (if n < 0 then ''-'' @ group3 (dec (nat (- n))) else group3 (dec (nat n)))"

text \<open>Graph 1 (lines 13 to 21). The upper edge of the danger zone is
  \<^verbatim>\<open>operations_single_bus.max()\<close>, which raises on an empty array.\<close>

definition graph1 :: "int64 list \<Rightarrow> error + call list" where
  "graph1 us =
     (let ops = operations_single_bus_of us in
      case amax ops of
        Inl e \<Rightarrow> Inl e
      | Inr m \<Rightarrow> Inr
          [Plot (map to_float us) (map to_float ops) ''b-'' ''Total Operations'',
           Axhline (py_float spark_limit) ''r'' ''Spark Plan Limit'',
           Fill_between (map to_float us) (py_float 0) (py_float spark_limit) ''green'' ''Safe Zone'',
           Fill_between (map to_float us) (py_float spark_limit) (to_float m) ''red'' ''Danger Zone'',
           Set_xlabel ''Number of Users'',
           Set_ylabel ''Daily Operations'',
           Set_title ''Single Bus: Users vs Operations'',
           Legend,
           Grid])"

text \<open>Graph 2 (lines 28 to 36).\<close>

definition graph2 :: "int64 list \<Rightarrow> error + call list" where
  "graph2 bs =
     (let ops = operations_multi_bus_of bs in
      case amax ops of
        Inl e \<Rightarrow> Inl e
      | Inr m \<Rightarrow> Inr
          [Plot (map to_float bs) (map to_float ops) ''g-'' ''Total Operations'',
           Axhline (py_float spark_limit) ''r'' ''Spark Plan Limit'',
           Fill_between (map to_float bs) (py_float 0) (py_float spark_limit) ''green'' ''Safe Zone'',
           Fill_between (map to_float bs) (py_float spark_limit) (to_float m) ''red'' ''Danger Zone'',
           Set_xlabel ''Number of Buses'',
           Set_ylabel ''Daily Operations'',
           Set_title ''Multiple Buses: 500 Users Each'',
           Legend,
           Grid])"

text \<open>Graph 3 (lines 43 to 50).\<close>

definition graph3 :: "int64 list \<Rightarrow> call list" where
  "graph3 rng =
     [Plot (map to_float rng) (spark_cost_of rng) ''r-'' ''Spark Plan ($0)'',
      Plot (map to_float rng) (map Fin (blaze_cost_of rng)) ''b-'' ''Blaze Plan (Pay-as-you-go)'',
      Set_xlabel ''Daily Operations'',
      Set_ylabel ''Monthly Cost ($)'',
      Set_title ''Firebase Plan Costs'',
      Legend,
      Grid,
      Set_ylim (py_float 0) (py_float 10)]"

text \<open>
  The value labels of a bar chart (lines 67 to 70 and 102 to 105). With category names on the
  x axis the plotting library centres bar \<open>i\<close> at position \<open>i\<close> with the default width
  \<open>0.8\<close>, so its left edge \<^verbatim>\<open>get_x()\<close> is \<open>i - 0.8 / 2\<close> and its height is the value.
\<close>

definition bar_labels :: "real \<Rightarrow> (int \<times> string) list \<Rightarrow> call list" where
  "bar_labels dy xs =
     map (\<lambda>(i, op, s). Text ((real i - 0.8 / 2) + 0.8 / 2) (real_of_int op + dy) s)
         (zip [0..<length xs] xs)"

text \<open>Graph 4 (lines 58 to 70).\<close>

definition graph4 :: "call list" where
  "graph4 =
     [Bar load_scenarios (map py_float operations) colors,
      Axhline (py_float spark_limit) ''red'' ''Spark Limit'',
      Set_xlabel ''Scenario (Buses + Users)'',
      Set_ylabel ''Daily Operations'',
      Set_title ''Load Scenarios vs Spark Plan Limit'',
      Legend,
      Grid]
     @ bar_labels 1000
         (map (\<lambda>(op, stat). (op, format_thousands op @ ''\<newline>'' @ stat)) (zip operations status))"

text \<open>Graph 5 (lines 85 to 87) and Graph 6 (lines 94 to 105).\<close>

definition graph5 :: "call list" where
  "graph5 =
     [Pie (map py_float operations_breakdown) operation_types colors_breakdown,
      Set_title ''Daily Operations Breakdown\<newline>(1 Bus + 1000 Users)'']"

definition graph6 :: "call list" where
  "graph6 =
     [Bar scenarios_opt (map py_float operations_before) colors_opt,
      Axhline (py_float spark_limit) ''red'' ''Spark Limit'',
      Set_ylabel ''Daily Operations'',
      Set_title ''Optimization Impact\<newline>(1 Bus + 1000 Users)'',
      Legend,
      Grid]
     @ bar_labels 2000 (map (\<lambda>op. (op, format_thousands op)) operations_before)"

definition fig2 :: figure where
  "fig2 = \<lparr>suptitle = ''Operation Breakdown and Optimization Impact'', axes = [graph5, graph6]\<rparr>"

section \<open>Running the script\<close>

text \<open>
  The state of a run: the NumPy arrays bound in the module's namespace, the files written so
  far, which paths can be written at all, and the text on standard output. A statement is a
  function on states; one that can raise returns \<open>Inl\<close> of the exception.
  \<^verbatim>\<open>plt.show()\<close> returns once the window, if there is one, is closed, and changes none of
  these. Only the arrays are kept in the namespace; the other variables are constants.
\<close>

datatype ndarray = IntArr "int64 list" | FloatArr "float64 list"

record state =
  globals :: "string \<rightharpoonup> ndarray"
  writable :: "string \<Rightarrow> bool"
  files :: "string \<rightharpoonup> figure"
  stdout :: string

definition assign :: "string \<Rightarrow> ndarray \<Rightarrow> state \<Rightarrow> state" where
  "assign v a st = st\<lparr>globals := (globals st)(v \<mapsto> a)\<rparr>"

definition savefig :: "string \<Rightarrow> figure \<Rightarrow> state \<Rightarrow> error + state" where
  "savefig path f st =
     (if writable st path then Inr (st\<lparr>files := (files st)(path \<mapsto> f)\<rparr>) else Inl OSError)"

definition py_print :: "string \<Rightarrow> state \<Rightarrow> state" where
  "py_print s st = st\<lparr>stdout := stdout st @ s @ ''\<newline>''\<rparr>"

text \<open>Lines 111 to 117.\<close>

definition print_findings :: "state \<Rightarrow> state" where
  "print_findings st =
     (let st = py_print ''Scalability analysis graphs generated successfully!'' st;
          st = py_print ''\<newline>Key Findings:'' st;
          st = py_print ''1. Single bus can handle up to 800 users safely on Spark plan'' st;
          st = py_print ''2. Multiple buses require careful user distribution'' st;
          st = py_print ''3. 3+ buses with 1000+ users need Blaze plan'' st;
          st = py_print ''4. Current optimizations reduce operations by ~66%'' st;
          st = py_print ''5. Further optimizations could support 2000+ users on Spark plan'' st
      in st)"

text \<open>
  The whole script, as a function of the three literal arrays of lines 9, 24 and 39. It ends
  with the exception raised, if any, and the state reached.
\<close>

definition script :: "int64 list \<Rightarrow> int64 list \<Rightarrow> int64 list \<Rightarrow> state \<Rightarrow> error option \<times> state" where
  "script us bs rng st0 =
     (let st1 = assign ''operations_single_bus'' (IntArr (operations_single_bus_of us))
                  (assign ''users'' (IntArr us) st0)
      in case graph1 us of
        Inl e \<Rightarrow> (Some e, st1)
      | Inr ax1 \<Rightarrow>
     (let st2 = assign ''operations_multi_bus'' (IntArr (operations_multi_bus_of bs))
                  (assign ''buses'' (IntArr bs) st1)
      in case graph2 bs of
        Inl e \<Rightarrow> (Some e, st2)
      | Inr ax2 \<Rightarrow>
     (let st3 = assign ''blaze_cost'' (FloatArr (map Fin (blaze_cost_of rng)))
                  (assign ''spark_cost'' (FloatArr (spark_cost_of rng))
                    (assign ''operations_range'' (IntArr rng) st2));
          fig = \<lparr>suptitle = ''Bus Tracking Backend Scalability Analysis'',
                  axes = [ax1, ax2, graph3 rng, graph4]\<rparr>
      in case savefig ''c:/xampp/htdocs/viscous/backend_scalability_analysis.png'' fig st3 of
        Inl e \<Rightarrow> (Some e, st3)
      | Inr st4 \<Rightarrow>
     (case savefig ''c:/xampp/htdocs/viscous/optimization_analysis.png'' fig2 st4 of
        Inl e \<Rightarrow> (Some e, st4)
      | Inr st5 \<Rightarrow> (None, print_findings st5)))))"

definition main :: "state \<Rightarrow> error option \<times> state" where
  "main st = script users buses operations_range st"

section \<open>Notions used to state the properties\<close>

text \<open>The filled regions of an axes: label, lower edge and upper edge of every
  \<^verbatim>\<open>fill_between\<close> call, in order.\<close>

fun fills :: "call list \<Rightarrow> (string \<times> float64 \<times> float64) list" where
  "fills [] = []"
| "fills (Fill_between xs y1 y2 c l # cs) = (l, y1, y2) # fills cs"
| "fills (_ # cs) = fills cs"

text \<open>The text made of the given lines, each ended by a newline.\<close>

definition unlines :: "string list \<Rightarrow> string" where
  "unlines ls = concat (map (\<lambda>l. l @ ''\<newline>'') ls)"

text \<open>The plotted series of an axes: the y data of every \<^verbatim>\<open>plot\<close> call, in order.\<close>

fun plotted :: "call list \<Rightarrow> float64 list list" where
  "plotted [] = []"
| "plotted (Plot xs ys f l # cs) = ys # plotted cs"
| "plotted (_ # cs) = plotted cs"

text \<open>The four computed series, as they are bound in the namespace of a state.\<close>

definition series_of :: "state \<Rightarrow> ndarray option list" where
  "series_of st = map (globals st)
     [''operations_single_bus'', ''operations_multi_bus'', ''spark_cost'', ''blaze_cost'']"

section \<open>Facts about the arithmetic\<close>

text \<open>The signed value of an \<^verbatim>\<open>int64\<close> result is the exact result wrapped into 64 bits.\<close>

lemma sint_single_bus_elem:
  "sint (800 + u * 50 + 200 :: int64) = signed_take_bit 63 (sint u * 50 + 1000)"
proof -
  have "(800 + u * 50 + 200 :: int64) = word_of_int (sint u * 50 + 1000)"
    by simp
  then show ?thesis
    by (simp only: sint_sbintrunc') simp
qed

lemma sint_multi_bus_elem:
  "sint (b * of_int (800 + users_per_bus * 50 + 200) :: int64) = signed_take_bit 63 (sint b * 26000)"
proof -
  have "(b * of_int (800 + users_per_bus * 50 + 200) :: int64) = word_of_int (sint b * 26000)"
    by (simp add: users_per_bus_def)
  then show ?thesis
    by (simp only: sint_sbintrunc') simp
qed

lemma sint_minus_threshold:
  assumes "- (2 ^ 63) + 50000 \<le> sint x"
  shows "sint (x - 50000 :: int64) = sint x - 50000"
proof -
  have "sint x < 2 ^ 63"
    using sint_lt [of x] by simp
  then have "signed_take_bit 63 (sint x - 50000) = sint x - 50000"
    using assms by (intro signed_take_bit_int_eq_self) simp_all
  moreover have "sint (x - 50000) = signed_take_bit 63 (sint x - sint (50000 :: int64))"
    using sint_word_diff [of x 50000] by simp
  ultimately show ?thesis
    by simp
qed

text \<open>An \<^verbatim>\<open>int64\<close> array built from a list holds the entries of the list.\<close>

lemma sint_of_int64:
  assumes "int64_range k"
  shows "sint (of_int k :: int64) = k"
proof -
  have "signed_take_bit 63 k = k"
    using assms by (intro signed_take_bit_int_eq_self) (simp_all add: int64_range_def)
  then show ?thesis
    by (simp add: sint_sbintrunc')
qed

lemma np_array_Some:
  assumes "np_array xs = Some a" and "i < length xs"
  shows "length a = length xs \<and> sint (a ! i) = xs ! i"
proof -
  from assms(1) have all: "list_all int64_range xs" and a: "a = map of_int xs"
    by (simp_all add: np_array_def split: if_splits)
  from all assms(2) have "int64_range (xs ! i)"
    by (simp add: list_all_length)
  then have "sint (of_int (xs ! i) :: int64) = xs ! i"
    by (rule sint_of_int64)
  with assms(2) show ?thesis
    by (simp add: a)
qed

text \<open>The three arrays of the script are the \<^verbatim>\<open>int64\<close> arrays of their literal lists; a list
  with an entry of \<open>2 ^ 63\<close> does not give an \<^verbatim>\<open>int64\<close> array.\<close>

lemma literal_arrays:
  "np_array [0, 100, 200, 500, 800, 1000, 1500, 2000] = Some users \<and>
   np_array [1, 2, 3, 4, 5, 6, 7, 8] = Some buses \<and>
   np_array [10000, 25000, 50000, 100000, 200000, 500000] = Some operations_range"
  by (simp add: np_array_def int64_range_def users_def buses_def operations_range_def)

lemma np_array_out_of_range: "np_array [9223372036854775808, 9007199254740993] = None"
  by (simp add: np_array_def int64_range_def)

lemma operations_single_bus_value:
  "operations_single_bus = [1000, 6000, 11000, 26000, 41000, 51000, 76000, 101000]"
  by (simp add: operations_single_bus_def operations_single_bus_of_def users_def)

lemma operations_multi_bus_value:
  "operations_multi_bus = [26000, 52000, 78000, 104000, 130000, 156000, 182000, 208000]"
  by (simp add: operations_multi_bus_def operations_multi_bus_of_def buses_def users_per_bus_def)

lemma single_bus_example: "operations_single_bus_of [0, 100, 1000] = [1000, 6000, 51000]"
  by (simp add: operations_single_bus_of_def)

lemma multi_bus_example: "operations_multi_bus_of [1, 2, 5] = [26000, 52000, 130000]"
  by (simp add: operations_multi_bus_of_def users_per_bus_def)

lemma cost_example:
  "spark_cost_of [10000, 100000] = [Fin 0, PInf] \<and> blaze_cost_of [10000, 100000] = [0, 0.03]"
  by (simp add: spark_cost_of_def blaze_cost_of_def)

text \<open>\<^verbatim>\<open>.max()\<close> of a non-empty array is its greatest entry, in the signed order.\<close>

lemma sint_foldl_max:
  "sint (foldl (\<lambda>m y. if sint m < sint y then y else m) x xs) = fold max (map sint xs) (sint x)"
  by (induction xs arbitrary: x) (simp_all add: max_def)

lemma amax_nonempty:
  assumes "xs \<noteq> []"
  shows "\<exists>m. amax xs = Inr m \<and> sint m = Max (sint ` set xs)"
proof -
  from assms obtain y ys where xs: "xs = y # ys"
    by (cases xs) auto
  have "Max (set (sint y # map sint ys)) = fold max (map sint ys) (sint y)"
    by (rule Max.set_eq_fold)
  then show ?thesis
    by (simp add: xs sint_foldl_max)
qed

section \<open>Facts about the graphs and the run\<close>

lemma graph1_nonempty:
  assumes "us \<noteq> []"
  shows "\<exists>cs. graph1 us = Inr cs \<and>
               plotted cs = [map to_float (operations_single_bus_of us)] \<and>
               fills cs = [(''Safe Zone'', Fin 0, Fin 50000),
                           (''Danger Zone'', Fin 50000,
                             Fin (real_of_int (Max (sint ` set (operations_single_bus_of us)))))]"
proof -
  from assms have "operations_single_bus_of us \<noteq> []"
    by (simp add: operations_single_bus_of_def)
  then obtain m where "amax (operations_single_bus_of us) = Inr m"
    and "sint m = Max (sint ` set (operations_single_bus_of us))"
    using amax_nonempty by blast
  then show ?thesis
    by (simp add: graph1_def Let_def to_float_def py_float_def spark_limit_def)
qed

lemma graph2_nonempty:
  assumes "bs \<noteq> []"
  shows "\<exists>cs. graph2 bs = Inr cs \<and>
               plotted cs = [map to_float (operations_multi_bus_of bs)] \<and>
               fills cs = [(''Safe Zone'', Fin 0, Fin 50000),
                           (''Danger Zone'', Fin 50000,
                             Fin (real_of_int (Max (sint ` set (operations_multi_bus_of bs)))))]"
proof -
  from assms have "operations_multi_bus_of bs \<noteq> []"
    by (simp add: operations_multi_bus_of_def)
  then obtain m where "amax (operations_multi_bus_of bs) = Inr m"
    and "sint m = Max (sint ` set (operations_multi_bus_of bs))"
    using amax_nonempty by blast
  then show ?thesis
    by (simp add: graph2_def Let_def to_float_def py_float_def spark_limit_def)
qed

lemma graph1_Inr: "us \<noteq> [] \<Longrightarrow> \<exists>cs. graph1 us = Inr cs"
  using graph1_nonempty by blast

lemma graph2_Inr: "bs \<noteq> [] \<Longrightarrow> \<exists>cs. graph2 bs = Inr cs"
  using graph2_nonempty by blast

lemma stdout_print_findings:
  "stdout (print_findings st) = stdout st @ unlines
     [''Scalability analysis graphs generated successfully!'',
      '''',
      ''Key Findings:'',
      ''1. Single bus can handle up to 800 users safely on Spark plan'',
      ''2. Multiple buses require careful user distribution'',
      ''3. 3+ buses with 1000+ users need Blaze plan'',
      ''4. Current optimizations reduce operations by ~66%'',
      ''5. Further optimizations could support 2000+ users on Spark plan'']"
  by (simp add: print_findings_def py_print_def unlines_def)

lemma globals_print_findings: "globals (print_findings st) = globals st"
  by (simp add: print_findings_def py_print_def)

text \<open>The script ends without an exception exactly when neither \<^verbatim>\<open>.max()\<close> is taken of an
  empty array and both figures can be written.\<close>

lemma script_raised:
  "fst (script us bs rng st) = None \<longleftrightarrow>
     us \<noteq> [] \<and> bs \<noteq> [] \<and>
     writable st ''c:/xampp/htdocs/viscous/backend_scalability_analysis.png'' \<and>
     writable st ''c:/xampp/htdocs/viscous/optimization_analysis.png''"
proof (cases "us = []")
  case True
  then show ?thesis
    by (simp add: script_def graph1_def operations_single_bus_of_def)
next
  case us: False
  then obtain cs1 where g1: "graph1 us = Inr cs1"
    using graph1_Inr by blast
  show ?thesis
  proof (cases "bs = []")
    case True
    then show ?thesis
      by (simp add: script_def g1 graph2_def operations_multi_bus_of_def)
  next
    case bs: False
    then obtain cs2 where g2: "graph2 bs = Inr cs2"
      using graph2_Inr by blast
    show ?thesis
      using us bs by (simp add: script_def Let_def g1 g2 savefig_def assign_def)
  qed
qed

text \<open>Nothing is printed before the last statement block: a run that raises leaves standard
  output as it found it.\<close>

lemma script_stdout:
  "stdout (snd (script us bs rng st)) =
     (if fst (script us bs rng st) = None then stdout (print_findings st) else stdout st)"
proof (cases "graph1 us")
  case (Inl e)
  then show ?thesis
    by (simp add: script_def assign_def)
next
  case g1: (Inr cs1)
  show ?thesis
  proof (cases "graph2 bs")
    case (Inl e)
    then show ?thesis
      by (simp add: script_def g1 assign_def)
  next
    case g2: (Inr cs2)
    show ?thesis
      by (simp add: script_def Let_def g1 g2 savefig_def assign_def print_findings_def py_print_def)
  qed
qed

lemma script_globals:
  assumes "us \<noteq> []" and "bs \<noteq> []"
  shows "globals (snd (script us bs rng st)) =
     (globals st)(''users'' \<mapsto> IntArr us,
        ''operations_single_bus'' \<mapsto> IntArr (operations_single_bus_of us),
        ''buses'' \<mapsto> IntArr bs,
        ''operations_multi_bus'' \<mapsto> IntArr (operations_multi_bus_of bs),
        ''operations_range'' \<mapsto> IntArr rng,
        ''spark_cost'' \<mapsto> FloatArr (spark_cost_of rng),
        ''blaze_cost'' \<mapsto> FloatArr (map Fin (blaze_cost_of rng)))"
proof -
  obtain cs1 cs2 where g: "graph1 us = Inr cs1" "graph2 bs = Inr cs2"
    using assms graph1_Inr graph2_Inr by blast
  show ?thesis
    by (simp add: script_def Let_def g savefig_def assign_def globals_print_findings)
qed

lemma main_series:
  "series_of (snd (main st)) =
     [Some (IntArr operations_single_bus), Some (IntArr operations_multi_bus),
      Some (FloatArr spark_cost), Some (FloatArr (map Fin blaze_cost))]"
proof -
  have "users \<noteq> []" and "buses \<noteq> []"
    by (simp_all add: users_def buses_def)
  then show ?thesis
    by (simp add: series_of_def main_def script_globals operations_single_bus_def
        operations_multi_bus_def spark_cost_def blaze_cost_def)
qed

section \<open>The claims\<close>

text \<open>
  Claim C1. For every list of users all of whose entries lie in the \<^verbatim>\<open>int64\<close> range, so
  that \<^verbatim>\<open>np.array\<close> builds an \<^verbatim>\<open>int64\<close> array from it, and for every index \<open>i\<close> with
  \<open>users[i]\<close> not negative and \<open>users[i] * 50 + 1000\<close> at most \<open>2 ^ 63 - 1\<close>, the greatest
  \<^verbatim>\<open>int64\<close>: entry \<open>i\<close> of the single-bus operations series is \<open>users[i] * 50 + 1000\<close>. The
  series has the length of the list.
\<close>

theorem single_bus_series_in_range:
  assumes "np_array us = Some a" and "i < length us"
    and "0 \<le> us ! i" and "us ! i * 50 + 1000 < 2 ^ 63"
  shows "length (operations_single_bus_of a) = length us \<and>
         sint (operations_single_bus_of a ! i) = us ! i * 50 + 1000"
proof -
  have a: "length a = length us" "sint (a ! i) = us ! i"
    using np_array_Some [OF assms(1,2)] by simp_all
  have "signed_take_bit 63 (us ! i * 50 + 1000) = us ! i * 50 + 1000"
    using assms(3,4) by (intro signed_take_bit_int_eq_self) simp_all
  moreover have "operations_single_bus_of a ! i = 800 + a ! i * 50 + 200"
    using assms(2) a(1) by (simp only: operations_single_bus_of_def nth_map)
  ultimately show ?thesis
    using a by (simp only: sint_single_bus_elem) (simp add: operations_single_bus_of_def)
qed

text \<open>The users \<open>[0, 100, 1000]\<close> give the series \<open>[1000, 6000, 51000]\<close>.\<close>

theorem single_bus_series_in_range_witness:
  "np_array [0, 100, 1000] = Some [0, 100, 1000] \<and> 2 < length [0, 100, 1000 :: int] \<and>
   0 \<le> [0, 100, 1000 :: int] ! 2 \<and> [0, 100, 1000 :: int] ! 2 * 50 + 1000 < 2 ^ 63 \<and>
   length (operations_single_bus_of [0, 100, 1000]) = 3 \<and>
   sint (operations_single_bus_of [0, 100, 1000] ! 2) = 51000 \<and>
   operations_single_bus_of [0, 100, 1000] = [1000, 6000, 51000]"
proof -
  have arr: "np_array [0, 100, 1000] = Some [0, 100, 1000]"
    by (simp add: np_array_def int64_range_def)
  from single_bus_series_in_range [OF arr, of 2] arr show ?thesis
    by (simp add: operations_single_bus_of_def)
qed

text \<open>
  Non-negativity alone is not enough: \<open>2 * 10 ^ 17\<close> users still make an \<^verbatim>\<open>int64\<close> array,
  but the product leaves the \<^verbatim>\<open>int64\<close> range, wraps around, and the entry is negative.
\<close>

theorem single_bus_series_overflow:
  "np_array [200000000000000000] = Some [200000000000000000] \<and>
   0 < length [200000000000000000 :: int64] \<and> 0 \<le> sint ([200000000000000000 :: int64] ! 0) \<and>
   sint (operations_single_bus_of [200000000000000000] ! 0) = - 8446744073709550616 \<and>
   sint (operations_single_bus_of [200000000000000000] ! 0)
     \<noteq> sint ([200000000000000000 :: int64] ! 0) * 50 + 1000"
  by (simp add: operations_single_bus_of_def np_array_def int64_range_def)

text \<open>
  Claim C2. For every list of buses all of whose entries lie in the \<^verbatim>\<open>int64\<close> range, so
  that \<^verbatim>\<open>np.array\<close> builds an \<^verbatim>\<open>int64\<close> array from it, and for every index \<open>i\<close> such that
  \<open>buses[i] * 26000\<close> lies in the \<^verbatim>\<open>int64\<close> range from \<open>- 2 ^ 63\<close> to \<open>2 ^ 63 - 1\<close>: entry
  \<open>i\<close> of the multi-bus operations series, with 500 users per bus, is
  \<open>buses[i] * (500 * 50 + 1000) = buses[i] * 26000\<close>.
\<close>

theorem multi_bus_series_in_range:
  assumes "np_array bs = Some a" and "i < length bs"
    and "- (2 ^ 63) \<le> bs ! i * 26000" and "bs ! i * 26000 < 2 ^ 63"
  shows "length (operations_multi_bus_of a) = length bs \<and>
         sint (operations_multi_bus_of a ! i) = bs ! i * (500 * 50 + 1000) \<and>
         sint (operations_multi_bus_of a ! i) = bs ! i * 26000"
proof -
  have a: "length a = length bs" "sint (a ! i) = bs ! i"
    using np_array_Some [OF assms(1,2)] by simp_all
  have "signed_take_bit 63 (bs ! i * 26000) = bs ! i * 26000"
    using assms(3,4) by (intro signed_take_bit_int_eq_self) simp_all
  moreover have "operations_multi_bus_of a ! i = a ! i * of_int (800 + users_per_bus * 50 + 200)"
    using assms(2) a(1) by (simp only: operations_multi_bus_of_def nth_map)
  ultimately show ?thesis
    using a by (simp only: sint_multi_bus_elem) (simp add: operations_multi_bus_of_def)
qed

text \<open>The buses \<open>[1, 2, 5]\<close> give the series \<open>[26000, 52000, 130000]\<close>.\<close>

theorem multi_bus_series_in_range_witness:
  "np_array [1, 2, 5] = Some [1, 2, 5] \<and> 2 < length [1, 2, 5 :: int] \<and>
   - (2 ^ 63) \<le> [1, 2, 5 :: int] ! 2 * 26000 \<and> [1, 2, 5 :: int] ! 2 * 26000 < 2 ^ 63 \<and>
   length (operations_multi_bus_of [1, 2, 5]) = 3 \<and>
   sint (operations_multi_bus_of [1, 2, 5] ! 2) = 130000 \<and>
   operations_multi_bus_of [1, 2, 5] = [26000, 52000, 130000]"
proof -
  have arr: "np_array [1, 2, 5] = Some [1, 2, 5]"
    by (simp add: np_array_def int64_range_def)
  from multi_bus_series_in_range [OF arr, of 2] arr show ?thesis
    by (simp add: operations_multi_bus_of_def users_per_bus_def)
qed

text \<open>\<open>10 ^ 15\<close> buses still make an \<^verbatim>\<open>int64\<close> array, but the product wraps around.\<close>

theorem multi_bus_series_overflow:
  "np_array [1000000000000000] = Some [1000000000000000] \<and>
   0 < length [1000000000000000 :: int64] \<and>
   sint (operations_multi_bus_of [1000000000000000] ! 0) = 7553255926290448384 \<and>
   sint (operations_multi_bus_of [1000000000000000] ! 0)
     \<noteq> sint ([1000000000000000 :: int64] ! 0) * 26000"
  by (simp add: operations_multi_bus_of_def users_per_bus_def np_array_def int64_range_def)

text \<open>
  Claim C3. For every index \<open>i\<close> into the operations range: the Spark cost is 0 when
  \<open>operations_range[i] \<le> 50000\<close>, equality included, and infinite otherwise; and the Blaze
  cost of an operation count, which is not negative, is
  \<open>max(0, (operations_range[i] - 50000) * 0.06 / 100000)\<close>. Both series have the length of the
  operations range.
\<close>

theorem cost_series_formulas:
  assumes "i < length rng"
  shows "length (spark_cost_of rng) = length rng \<and> length (blaze_cost_of rng) = length rng \<and>
         (sint (rng ! i) \<le> 50000 \<longrightarrow> spark_cost_of rng ! i = Fin 0) \<and>
         (50000 < sint (rng ! i) \<longrightarrow> spark_cost_of rng ! i = PInf) \<and>
         (0 \<le> sint (rng ! i) \<longrightarrow>
            blaze_cost_of rng ! i = max 0 ((real_of_int (sint (rng ! i)) - 50000) * 0.06 / 100000))"
  using assms
  by (simp add: spark_cost_of_def blaze_cost_of_def sint_minus_threshold del: of_int_sint)

text \<open>In the script's own operations range, index 2 holds exactly 50000 (free, no Blaze cost)
  and index 3 holds 100000 (infinite on Spark, 0.03 on Blaze).\<close>

theorem cost_series_formulas_witness:
  "2 < length operations_range \<and> sint (operations_range ! 2) = 50000 \<and>
   0 \<le> sint (operations_range ! 2) \<and>
   spark_cost_of operations_range ! 2 = Fin 0 \<and> blaze_cost_of operations_range ! 2 = 0 \<and>
   3 < length operations_range \<and> sint (operations_range ! 3) = 100000 \<and>
   0 \<le> sint (operations_range ! 3) \<and>
   spark_cost_of operations_range ! 3 = PInf \<and> blaze_cost_of operations_range ! 3 = 0.03"
  using cost_series_formulas [of 2 operations_range] cost_series_formulas [of 3 operations_range]
  by (simp add: operations_range_def)

text \<open>
  Claim C4. The Blaze cost does not decrease when the operation count grows: for indices
  \<open>i\<close> and \<open>j\<close> with \<open>operations_range[i] \<le> operations_range[j]\<close>, both operation counts
  and so not negative, the Blaze cost at \<open>i\<close> is at most the one at \<open>j\<close>.
\<close>

theorem blaze_cost_monotone:
  assumes "i < length rng" and "j < length rng"
    and "0 \<le> sint (rng ! i)" and "sint (rng ! i) \<le> sint (rng ! j)"
  shows "blaze_cost_of rng ! i \<le> blaze_cost_of rng ! j"
proof -
  have "sint (rng ! i - 50000) = sint (rng ! i) - 50000"
    using assms(3) by (intro sint_minus_threshold) simp
  moreover have "sint (rng ! j - 50000) = sint (rng ! j) - 50000"
    using assms(3,4) by (intro sint_minus_threshold) simp
  ultimately have "real_of_int (sint (rng ! i - 50000)) \<le> real_of_int (sint (rng ! j - 50000))"
    using assms(4) by (simp del: of_int_sint)
  then have "real_of_int (sint (rng ! i - 50000)) * 0.06 / 100000
             \<le> real_of_int (sint (rng ! j - 50000)) * 0.06 / 100000"
    by (simp del: of_int_sint)
  then have "max 0 (real_of_int (sint (rng ! i - 50000)) * 0.06 / 100000)
             \<le> max 0 (real_of_int (sint (rng ! j - 50000)) * 0.06 / 100000)"
    by (rule max.mono [OF order_refl])
  then show ?thesis
    using assms(1,2) by (simp only: blaze_cost_of_def nth_map)
qed

text \<open>The operations range \<open>[10000, 100000]\<close> has the Blaze costs \<open>[0, 0.03]\<close>.\<close>

theorem blaze_cost_monotone_witness:
  "0 < length [10000, 100000 :: int64] \<and> 1 < length [10000, 100000 :: int64] \<and>
   0 \<le> sint ([10000, 100000 :: int64] ! 0) \<and>
   sint ([10000, 100000 :: int64] ! 0) \<le> sint ([10000, 100000 :: int64] ! 1) \<and>
   blaze_cost_of [10000, 100000] ! 0 \<le> blaze_cost_of [10000, 100000] ! 1 \<and>
   blaze_cost_of [10000, 100000] = [0, 0.03]"
  using blaze_cost_monotone [of 0 "[10000, 100000]" 1]
  by (simp add: blaze_cost_of_def)

text \<open>
  Claim C5. The generator is deterministic: whatever the states two runs start from, they bind
  the same four numeric series (single-bus operations, multi-bus operations, Spark cost and
  Blaze cost), namely the ones computed from the literal constants; so does a second run that
  starts where the first one ended.
\<close>

theorem series_deterministic:
  "series_of (snd (main st)) = series_of (snd (main st')) \<and>
   series_of (snd (main (snd (main st)))) = series_of (snd (main st)) \<and>
   series_of (snd (main st)) =
     [Some (IntArr operations_single_bus), Some (IntArr operations_multi_bus),
      Some (FloatArr spark_cost), Some (FloatArr (map Fin blaze_cost))]"
  by (simp add: main_series)

text \<open>
  Claim C6. A run in which both figure files can be written ends without an exception and
  adds to standard output exactly: one confirmation line, an empty line and the heading
  \<^verbatim>\<open>Key Findings:\<close>, and the five enumerated findings.
\<close>

theorem findings_printed_when_saved:
  assumes "writable st ''c:/xampp/htdocs/viscous/backend_scalability_analysis.png''"
    and "writable st ''c:/xampp/htdocs/viscous/optimization_analysis.png''"
  shows "fst (main st) = None \<and>
         stdout (snd (main st)) = stdout st @ unlines
           [''Scalability analysis graphs generated successfully!'',
            '''',
            ''Key Findings:'',
            ''1. Single bus can handle up to 800 users safely on Spark plan'',
            ''2. Multiple buses require careful user distribution'',
            ''3. 3+ buses with 1000+ users need Blaze plan'',
            ''4. Current optimizations reduce operations by ~66%'',
            ''5. Further optimizations could support 2000+ users on Spark plan'']"
proof -
  have "fst (main st) = None"
    using assms by (simp add: main_def script_raised users_def buses_def)
  then show ?thesis
    by (simp add: main_def script_stdout stdout_print_findings)
qed

text \<open>A run that starts with nothing printed, where every path can be written.\<close>

theorem findings_printed_when_saved_witness:
  "writable \<lparr>globals = Map.empty, writable = (\<lambda>p. True), files = Map.empty, stdout = []\<rparr>
     ''c:/xampp/htdocs/viscous/backend_scalability_analysis.png'' \<and>
   writable \<lparr>globals = Map.empty, writable = (\<lambda>p. True), files = Map.empty, stdout = []\<rparr>
     ''c:/xampp/htdocs/viscous/optimization_analysis.png'' \<and>
   fst (main \<lparr>globals = Map.empty, writable = (\<lambda>p. True), files = Map.empty, stdout = []\<rparr>) = None \<and>
   stdout (snd (main \<lparr>globals = Map.empty, writable = (\<lambda>p. True), files = Map.empty, stdout = []\<rparr>)) =
     ''Scalability analysis graphs generated successfully!\<newline>\<newline>Key Findings:\<newline>1. Single bus can handle up to 800 users safely on Spark plan\<newline>2. Multiple buses require careful user distribution\<newline>3. 3+ buses with 1000+ users need Blaze plan\<newline>4. Current optimizations reduce operations by ~66%\<newline>5. Further optimizations could support 2000+ users on Spark plan\<newline>''"
  using findings_printed_when_saved
    [of "\<lparr>globals = Map.empty, writable = (\<lambda>p. True), files = Map.empty, stdout = []\<rparr>"]
  by (simp add: unlines_def)

text \<open>Where the output directory cannot be written, the first \<^verbatim>\<open>savefig\<close> raises and the
  run ends before any line is printed.\<close>

theorem nothing_printed_when_unwritable:
  "fst (main \<lparr>globals = Map.empty, writable = (\<lambda>p. False), files = Map.empty, stdout = []\<rparr>)
     = Some OSError \<and>
   stdout (snd (main \<lparr>globals = Map.empty, writable = (\<lambda>p. False), files = Map.empty, stdout = []\<rparr>))
     = []"
proof -
  obtain cs1 cs2 where "graph1 users = Inr cs1" and "graph2 buses = Inr cs2"
    using graph1_Inr [of users] graph2_Inr [of buses] by (auto simp: users_def buses_def)
  then show ?thesis
    by (simp add: main_def script_def Let_def savefig_def assign_def)
qed

text \<open>
  Claim C7. The printed findings do not depend on the computed series: in every state,
  whatever arrays it holds, the print statements add the same fixed lines; and for any three
  input arrays the script prints either these lines, when it ends without an exception, or
  nothing.
\<close>

theorem findings_independent_of_series:
  "stdout (print_findings st) = stdout st @ unlines
     [''Scalability analysis graphs generated successfully!'',
      '''',
      ''Key Findings:'',
      ''1. Single bus can handle up to 800 users safely on Spark plan'',
      ''2. Multiple buses require careful user distribution'',
      ''3. 3+ buses with 1000+ users need Blaze plan'',
      ''4. Current optimizations reduce operations by ~66%'',
      ''5. Further optimizations could support 2000+ users on Spark plan''] \<and>
   stdout (print_findings (st\<lparr>globals := g\<rparr>)) = stdout (print_findings st) \<and>
   stdout (snd (script us bs rng st)) =
     (if fst (script us bs rng st) = None then stdout (print_findings st) else stdout st)"
  by (simp add: script_stdout stdout_print_findings)

text \<open>Two runs on different arrays, both without an exception, print the same text.\<close>

theorem findings_independent_of_series_witness:
  "fst (script users buses operations_range
         \<lparr>globals = Map.empty, writable = (\<lambda>p. True), files = Map.empty, stdout = []\<rparr>) = None \<and>
   fst (script [7] [3] []
         \<lparr>globals = Map.empty, writable = (\<lambda>p. True), files = Map.empty, stdout = []\<rparr>) = None \<and>
   stdout (snd (script users buses operations_range
         \<lparr>globals = Map.empty, writable = (\<lambda>p. True), files = Map.empty, stdout = []\<rparr>)) =
   stdout (snd (script [7] [3] []
         \<lparr>globals = Map.empty, writable = (\<lambda>p. True), files = Map.empty, stdout = []\<rparr>))"
  using
    findings_independent_of_series [of
      "\<lparr>globals = Map.empty, writable = (\<lambda>p. True), files = Map.empty, stdout = []\<rparr>"
      Map.empty users buses operations_range]
    findings_independent_of_series [of
      "\<lparr>globals = Map.empty, writable = (\<lambda>p. True), files = Map.empty, stdout = []\<rparr>"
      Map.empty "[7]" "[3]" "[]"]
  by (simp add: script_raised users_def buses_def)

text \<open>
  Claim C8. In Graph 1 and in Graph 2, drawn from non-empty arrays, the safe zone is filled
  from 0 up to the threshold 50000 and the danger zone from the threshold up to the maximum of
  the operations series plotted in that graph.
\<close>

theorem zone_fills:
  assumes "us \<noteq> []" and "bs \<noteq> []"
  shows "(\<exists>cs. graph1 us = Inr cs \<and>
               plotted cs = [map to_float (operations_single_bus_of us)] \<and>
               fills cs = [(''Safe Zone'', Fin 0, Fin 50000),
                           (''Danger Zone'', Fin 50000,
                             Fin (real_of_int (Max (sint ` set (operations_single_bus_of us)))))]) \<and>
         (\<exists>cs. graph2 bs = Inr cs \<and>
               plotted cs = [map to_float (operations_multi_bus_of bs)] \<and>
               fills cs = [(''Safe Zone'', Fin 0, Fin 50000),
                           (''Danger Zone'', Fin 50000,
                             Fin (real_of_int (Max (sint ` set (operations_multi_bus_of bs)))))])"
  using assms graph1_nonempty graph2_nonempty by simp

text \<open>For the script's own arrays the danger zones end at 101000 and at 208000.\<close>

theorem zone_fills_witness:
  "users \<noteq> [] \<and> buses \<noteq> [] \<and>
   (\<exists>cs. graph1 users = Inr cs \<and>
         fills cs = [(''Safe Zone'', Fin 0, Fin 50000), (''Danger Zone'', Fin 50000, Fin 101000)]) \<and>
   (\<exists>cs. graph2 buses = Inr cs \<and>
         fills cs = [(''Safe Zone'', Fin 0, Fin 50000), (''Danger Zone'', Fin 50000, Fin 208000)])"
proof -
  have ne: "users \<noteq> []" "buses \<noteq> []"
    by (simp_all add: users_def buses_def)
  have m1: "Max (sint ` set (operations_single_bus_of users)) = 101000"
    using operations_single_bus_value by (simp add: operations_single_bus_def)
  have m2: "Max (sint ` set (operations_multi_bus_of buses)) = 208000"
    using operations_multi_bus_value by (simp add: operations_multi_bus_def)
  from zone_fills [OF ne] show ?thesis
    unfolding m1 m2 using ne by auto
qed

text \<open>
  Claim C9. Each of the six load scenarios of Graph 4 is annotated \<^verbatim>\<open>Safe\<close> exactly when its
  operation count is at most the Spark limit of 50000, and its bar is green exactly when it is
  annotated \<^verbatim>\<open>Safe\<close>; a scenario above the limit is \<^verbatim>\<open>Warning\<close> or \<^verbatim>\<open>Critical\<close> and not
  green.
\<close>

theorem load_scenarios_status:
  "length load_scenarios = 6 \<and> length operations = 6 \<and> length colors = 6 \<and> length status = 6 \<and>
   (\<forall>i < 6. (status ! i = ''Safe'') = (operations ! i \<le> spark_limit) \<and>
            (colors ! i = ''green'') = (status ! i = ''Safe'') \<and>
            (spark_limit < operations ! i \<longrightarrow>
               status ! i \<in> {''Warning'', ''Critical''} \<and> colors ! i \<noteq> ''green''))"
  by (simp add: load_scenarios_def operations_def colors_def status_def spark_limit_def
      numeral_eq_Suc All_less_Suc)

text \<open>The third scenario, one bus with 1000 users, is above the limit.\<close>

theorem load_scenarios_status_witness:
  "(2::nat) < 6 \<and> spark_limit < operations ! 2 \<and> status ! 2 = ''Warning'' \<and>
   (status ! 2 = ''Safe'') = (operations ! 2 \<le> spark_limit) \<and>
   (colors ! 2 = ''green'') = (status ! 2 = ''Safe'') \<and>
   status ! 2 \<in> {''Warning'', ''Critical''} \<and> colors ! 2 \<noteq> ''green''"
proof -
  have above: "spark_limit < operations ! 2"
    by (simp add: operations_def spark_limit_def)
  have "(2::nat) < 6"
    by simp
  with load_scenarios_status have
    "(status ! 2 = ''Safe'') = (operations ! 2 \<le> spark_limit) \<and>
     (colors ! 2 = ''green'') = (status ! 2 = ''Safe'') \<and>
     (spark_limit < operations ! 2 \<longrightarrow>
        status ! 2 \<in> {''Warning'', ''Critical''} \<and> colors ! 2 \<noteq> ''green'')"
    by blast
  with above show ?thesis
    by (simp add: status_def)
qed

text \<open>
  Claim C10. The five values of the pie chart sum to 51544, which is the value of the bar
  \<^verbatim>\<open>Current Optimization\<close> in the optimization chart.
\<close>

theorem breakdown_sum_consistent:
  "operations_breakdown = [800, 400, 50000, 200, 144] \<and>
   sum_list operations_breakdown = 51544 \<and>
   scenarios_opt ! 1 = ''Current Optimization'' \<and>
   operations_before ! 1 = sum_list operations_breakdown"
  by (simp add: operations_breakdown_def scenarios_opt_def operations_before_def)

end
